theory Spec2Isabelle
  imports Main
begin

section \<open>Python values, exceptions and dictionaries\<close>

text \<open>
  The values that flow through \<^verbatim>\<open>chapa/api.py\<close>. A float is carried by the text that
  \<^verbatim>\<open>str()\<close> prints for it (\<^verbatim>\<open>12.5\<close>, \<^verbatim>\<open>1e+16\<close>), which determines the float. A
  dictionary is the list of its items in insertion order, with string keys; a
  \<^verbatim>\<open>Response\<close> instance is carried by its instance dictionary \<^verbatim>\<open>__dict__\<close>.
  A \<^verbatim>\<open>str\<close> whose characters are all below code point 256 is \<^verbatim>\<open>VStr\<close> with those
  characters; \<^verbatim>\<open>VText\<close> carries any \<^verbatim>\<open>str\<close> as the list of its code points.
\<close>

datatype pyval =
    VNone
  | VBool bool
  | VInt int
  | VFloat string
  | VStr string
  | VText "nat list"
  | VList "pyval list"
  | VDict "(string \<times> pyval) list"
  | VResponse "(string \<times> pyval) list"

type_synonym pydict = "(string \<times> pyval) list"

text \<open>
  The exceptions of the program: every \<^verbatim>\<open>raise\<close> of the source is a
  \<^verbatim>\<open>ValueError\<close> with its message; \<^verbatim>\<open>TypeError\<close> comes from the built-ins
  (\<^verbatim>\<open>dict.update\<close>, \<^verbatim>\<open>json.dumps\<close>), \<^verbatim>\<open>RequestException\<close> from the HTTP library.
  \<^verbatim>\<open>FloatValueError\<close> is the \<^verbatim>\<open>ValueError\<close> that \<^verbatim>\<open>float\<close> raises on a text it
  cannot read (could not convert string to float), with that text.
\<close>

datatype pyexc =
    ValueError string
  | TypeError string
  | RequestException string
  | FloatValueError "nat list"

text \<open>
  What a caller may pass for \<^verbatim>\<open>data\<close>, \<^verbatim>\<open>params\<close> and \<^verbatim>\<open>headers\<close>: \<^verbatim>\<open>None\<close>,
  a dictionary, a list of (key, value) tuples, a string or an integer.
\<close>

datatype pyarg = ArgNone | ArgDict pydict | ArgPairs "(string \<times> pyval) list" | ArgStr string | ArgInt int

fun isinstance_dict :: "pyarg \<Rightarrow> bool" where
  "isinstance_dict (ArgDict d) = True"
| "isinstance_dict a = False"

text \<open>\<^verbatim>\<open>d[k] = v\<close>: an existing key keeps its place, a new key goes last.\<close>

fun dict_setitem :: "pydict \<Rightarrow> string \<Rightarrow> pyval \<Rightarrow> pydict" where
  "dict_setitem [] k v = [(k, v)]"
| "dict_setitem ((k', v') # d) k v =
     (if k' = k then (k, v) # d else (k', v') # dict_setitem d k v)"

fun dict_setitems :: "pydict \<Rightarrow> (string \<times> pyval) list \<Rightarrow> pydict" where
  "dict_setitems d [] = d"
| "dict_setitems d ((k, v) # kvs) = dict_setitems (dict_setitem d k v) kvs"

definition dict_get :: "pydict \<Rightarrow> string \<Rightarrow> pyval option" where
  "dict_get d k = map_of d k"

text \<open>
  \<^verbatim>\<open>d.update(other)\<close>. A dictionary and a list of pairs are merged item by item; the
  empty string is an empty iterable; the first character of any other string is a
  sequence of length 1; \<^verbatim>\<open>None\<close> and an integer are not iterable.
\<close>

fun dict_update :: "pydict \<Rightarrow> pyarg \<Rightarrow> pyexc + pydict" where
  "dict_update d (ArgDict kvs) = Inr (dict_setitems d kvs)"
| "dict_update d (ArgPairs kvs) = Inr (dict_setitems d kvs)"
| "dict_update d (ArgStr s) =
     (if s = [] then Inr d
      else Inl (ValueError ''dictionary update sequence element #0 has length 1; 2 is required''))"
| "dict_update d ArgNone = Inl (TypeError '''NoneType' object is not iterable'')"
| "dict_update d (ArgInt n) = Inl (TypeError '''int' object is not iterable'')"

section \<open>The client and the HTTP library\<close>

record chapa =
  key :: string
  base_url :: string
  api_version :: string
  response_format :: string
  headers :: pydict

definition allowed_methods :: "string list" where
  "allowed_methods = [''post'', ''put'']"

text \<open>
  \<^verbatim>\<open>Chapa.__init__\<close>. The defaults of the signature are \<^verbatim>\<open>chapa_default\<close>.
\<close>

definition chapa_init :: "string \<Rightarrow> string \<Rightarrow> string \<Rightarrow> string \<Rightarrow> pyexc + chapa" where
  "chapa_init secret base_ur api_ver fmt =
     (if fmt \<in> set [''json'', ''obj'']
      then Inr \<lparr> key = secret, base_url = base_ur, api_version = api_ver,
                 response_format = fmt,
                 headers = [(''Authorization'', VStr (''Bearer '' @ secret))] \<rparr>
      else Inl (ValueError (''response_format must be 'json' or 'obj'' @ [CHR 0x27])))"

definition chapa_default :: "string \<Rightarrow> pyexc + chapa" where
  "chapa_default secret = chapa_init secret ''https://api.chapa.co'' ''v1'' ''json''"

text \<open>
  One call of \<^verbatim>\<open>requests.post\<close> or \<^verbatim>\<open>requests.put\<close> as the program makes it, and
  the library with the server behind it: the value of \<^verbatim>\<open>response.json()\<close>, or the
  exception raised on the way. The requests issued so far are part of the state.
\<close>

record http_request =
  req_method :: string
  req_url :: string
  req_data :: pyarg
  req_headers :: pydict

type_synonym transport = "http_request \<Rightarrow> pyexc + pyval"

record world =
  client :: chapa
  sent :: "http_request list"

section \<open>send\_request\<close>

definition send_request ::
  "transport \<Rightarrow> world \<Rightarrow> string \<Rightarrow> string \<Rightarrow> pyarg \<Rightarrow> pyarg \<Rightarrow> pyarg \<Rightarrow> (pyexc + pyval) \<times> world" where
  "send_request net w url method data params hdrs =
     (if method \<notin> set allowed_methods then
        (Inl (ValueError ''Please provide a valid method, allowed methods are: ['post', 'put']''), w)
      else if params \<noteq> ArgNone \<and> \<not> isinstance_dict params then
        (Inl (ValueError ''params must be a dict''), w)
      else if data \<noteq> ArgNone \<and> \<not> isinstance_dict data then
        (Inl (ValueError ''data must be a dict''), w)
      else if hdrs \<noteq> ArgNone \<and> \<not> isinstance_dict data then
        (Inl (ValueError ''headers must be a dict''), w)
      else
        (case dict_update (headers (client w)) hdrs of
           Inl e \<Rightarrow> (Inl e, w)
         | Inr h \<Rightarrow>
             (let req = \<lparr> req_method = method, req_url = url, req_data = data, req_headers = h \<rparr>
              in (net req, \<lparr> client = (client w)\<lparr> headers := h \<rparr>, sent = sent w @ [req] \<rparr>))))"

section \<open>convert\_response and \_construct\_request\<close>

text \<open>
  \<^verbatim>\<open>json.dumps\<close> raises \<^verbatim>\<open>TypeError\<close> on a \<^verbatim>\<open>Response\<close> instance anywhere in its
  argument; every other value of the model is serialisable.
\<close>

fun json_serializable :: "pyval \<Rightarrow> bool" where
  "json_serializable (VList xs) = list_all json_serializable xs"
| "json_serializable (VDict kvs) = list_all (\<lambda>kv. json_serializable (snd kv)) kvs"
| "json_serializable (VResponse kvs) = False"
| "json_serializable v = True"

text \<open>
  \<^verbatim>\<open>json.loads(json.dumps(v), object_hook=Response)\<close> on a serialisable value: the
  decoder rebuilds the value bottom-up and hands every decoded object to
  \<^verbatim>\<open>Response\<close>, whose \<^verbatim>\<open>__init__\<close> copies the items into the instance dictionary.
\<close>

fun loads_dumps :: "pyval \<Rightarrow> pyval" where
  "loads_dumps (VList xs) = VList (map loads_dumps xs)"
| "loads_dumps (VDict kvs) = VResponse (map (\<lambda>kv. (fst kv, loads_dumps (snd kv))) kvs)"
| "loads_dumps v = v"

fun isinstance_dict_val :: "pyval \<Rightarrow> bool" where
  "isinstance_dict_val (VDict kvs) = True"
| "isinstance_dict_val v = False"

definition convert_response :: "pyval \<Rightarrow> pyexc + pyval" where
  "convert_response response =
     (if \<not> isinstance_dict_val response then Inr response
      else if \<not> json_serializable response
        then Inl (TypeError ''Object of type Response is not JSON serializable'')
      else Inr (loads_dumps response))"

definition construct_request ::
  "transport \<Rightarrow> world \<Rightarrow> string \<Rightarrow> string \<Rightarrow> pyarg \<Rightarrow> pyarg \<Rightarrow> pyarg \<Rightarrow> (pyexc + pyval) \<times> world" where
  "construct_request net w url method data params hdrs =
     (case send_request net w url method data params hdrs of
        (Inl e, w') \<Rightarrow> (Inl e, w')
      | (Inr res, w') \<Rightarrow>
          (if response_format (client w') = ''obj'' \<and> isinstance_dict_val res
           then (convert_response res, w')
           else (Inr res, w')))"

section \<open>initialize: the amount check\<close>

text \<open>
  The text of an amount is the list of its code points; \<^verbatim>\<open>codepoints\<close> gives that of
  a text whose characters are all below 256.
\<close>

definition codepoints :: "string \<Rightarrow> nat list" where
  "codepoints s = map of_char s"

text \<open>
  The decimal digits (\<^verbatim>\<open>str.isdecimal\<close>, general category Nd) come in runs of ten,
  zero to nine; \<^verbatim>\<open>decimal_zeros\<close> lists the zero of every run: \<^verbatim>\<open>0\<close> (48), the
  Arabic-Indic zero (1632), the fullwidth zero (65296) and so on. \<^verbatim>\<open>other_digits\<close>
  lists the characters that \<^verbatim>\<open>str.isdigit\<close> accepts and that are no decimal digits:
  superscripts (178, 179, 185), subscripts, circled digits and the like. Both tables
  are those of Unicode 14.0, the character database of CPython 3.11.
\<close>

definition decimal_zeros :: "nat list" where
  "decimal_zeros =
     [48, 1632, 1776, 1984, 2406, 2534, 2662, 2790, 2918, 3046, 3174, 3302, 3430, 3558,
      3664, 3792, 3872, 4160, 4240, 6112, 6160, 6470, 6608, 6784, 6800, 6992, 7088, 7232,
      7248, 42528, 43216, 43264, 43472, 43504, 43600, 44016, 65296, 66720, 68912, 69734,
      69872, 69942, 70096, 70384, 70736, 70864, 71248, 71360, 71472, 71904, 72016, 72784,
      73040, 73120, 92768, 92864, 93008, 120782, 120792, 120802, 120812, 120822, 123200,
      123632, 125264, 130032]"

definition other_digits :: "nat list" where
  "other_digits =
     [178, 179, 185, 4969, 4970, 4971, 4972, 4973, 4974, 4975, 4976, 4977, 6618, 8304,
      8308, 8309, 8310, 8311, 8312, 8313, 8320, 8321, 8322, 8323, 8324, 8325, 8326, 8327,
      8328, 8329, 9312, 9313, 9314, 9315, 9316, 9317, 9318, 9319, 9320, 9332, 9333, 9334,
      9335, 9336, 9337, 9338, 9339, 9340, 9352, 9353, 9354, 9355, 9356, 9357, 9358, 9359,
      9360, 9450, 9461, 9462, 9463, 9464, 9465, 9466, 9467, 9468, 9469, 9471, 10102, 10103,
      10104, 10105, 10106, 10107, 10108, 10109, 10110, 10112, 10113, 10114, 10115, 10116,
      10117, 10118, 10119, 10120, 10122, 10123, 10124, 10125, 10126, 10127, 10128, 10129,
      10130, 68160, 68161, 68162, 68163, 69216, 69217, 69218, 69219, 69220, 69221, 69222,
      69223, 69224, 69714, 69715, 69716, 69717, 69718, 69719, 69720, 69721, 69722, 127232,
      127233, 127234, 127235, 127236, 127237, 127238, 127239, 127240, 127241, 127242]"

text \<open>The value, 0 to 9, of a decimal digit.\<close>

definition unicode_decimal :: "nat \<Rightarrow> nat option" where
  "unicode_decimal c =
     map_option (\<lambda>z. c - z) (find (\<lambda>z. z \<le> c \<and> c < z + 10) decimal_zeros)"

definition char_isdecimal :: "nat \<Rightarrow> bool" where
  "char_isdecimal c = (unicode_decimal c \<noteq> None)"

text \<open>
  \<^verbatim>\<open>str.isdigit()\<close>: the text is not empty and every character is a digit, decimal
  or not.
\<close>

definition char_isdigit :: "nat \<Rightarrow> bool" where
  "char_isdigit c = (char_isdecimal c \<or> c \<in> set other_digits)"

definition str_isdigit :: "nat list \<Rightarrow> bool" where
  "str_isdigit s = (s \<noteq> [] \<and> list_all char_isdigit s)"

text \<open>\<^verbatim>\<open>s.replace('.', '', 1)\<close>: the first full stop (46) is removed.\<close>

fun replace_first_dot :: "nat list \<Rightarrow> nat list" where
  "replace_first_dot [] = []"
| "replace_first_dot (c # cs) = (if c = 46 then cs else c # replace_first_dot cs)"

text \<open>
  \<^verbatim>\<open>float(amount) > 0\<close>. \<^verbatim>\<open>float\<close> reads every decimal digit, of any script, as
  the ASCII digit of its value. A text of decimal digits with one full stop denotes
  \<^verbatim>\<open>digits / 10 ^ places\<close>, and the nearest double of a number is above zero exactly
  when the number is above \<^verbatim>\<open>2 ^ -1075\<close>, half of the least positive double. On
  any other text that \<^verbatim>\<open>isdigit\<close> lets through (one with a digit that is not
  decimal, such as a superscript) \<^verbatim>\<open>float\<close> raises its \<^verbatim>\<open>ValueError\<close>.
\<close>

definition digit_val :: "nat \<Rightarrow> nat" where
  "digit_val c = (case unicode_decimal c of None \<Rightarrow> 0 | Some d \<Rightarrow> d)"

definition digits_value :: "nat list \<Rightarrow> nat" where
  "digits_value s = foldl (\<lambda>n c. 10 * n + digit_val c) 0 s"

definition decimal_digits :: "nat list \<Rightarrow> nat list" where
  "decimal_digits s = filter (\<lambda>c. c \<noteq> 46) s"

definition decimal_places :: "nat list \<Rightarrow> nat" where
  "decimal_places s = length (drop 1 (dropWhile (\<lambda>c. c \<noteq> 46) s))"

definition float_positive :: "nat list \<Rightarrow> pyexc + bool" where
  "float_positive s =
     (if list_all (\<lambda>c. char_isdecimal c \<or> c = 46) s
      then Inr (10 ^ decimal_places s < digits_value (decimal_digits s) * 2 ^ 1075)
      else Inl (FloatValueError s))"

definition invalid_amount :: "pyexc + unit" where
  "invalid_amount = Inl (ValueError ''invalid amount'')"

text \<open>
  The test on \<^verbatim>\<open>str(amount)\<close> of the branch for an amount that is not an
  \<^verbatim>\<open>int\<close>; \<^verbatim>\<open>and\<close> evaluates \<^verbatim>\<open>float(amount)\<close> only after \<^verbatim>\<open>isdigit\<close>.
\<close>

definition check_amount_text :: "nat list \<Rightarrow> pyexc + unit" where
  "check_amount_text s =
     (if str_isdigit (replace_first_dot s)
      then (case float_positive s of
              Inl e \<Rightarrow> Inl e
            | Inr b \<Rightarrow> if b then Inr () else invalid_amount)
      else invalid_amount)"

text \<open>
  Lines 126 to 133 of \<^verbatim>\<open>initialize\<close>. \<^verbatim>\<open>bool\<close> is a subclass of \<^verbatim>\<open>int\<close> and
  neither \<^verbatim>\<open>True\<close> nor \<^verbatim>\<open>False\<close> is below zero. \<^verbatim>\<open>str(None)\<close> is \<^verbatim>\<open>None\<close>; the
  text of a list, a dictionary or an object opens with a bracket, so \<^verbatim>\<open>isdigit\<close>
  fails on it.
\<close>

fun validate_amount :: "pyval \<Rightarrow> pyexc + unit" where
  "validate_amount (VInt n) = (if n < 0 then invalid_amount else Inr ())"
| "validate_amount (VBool b) = Inr ()"
| "validate_amount (VStr s) = check_amount_text (codepoints s)"
| "validate_amount (VText t) = check_amount_text t"
| "validate_amount (VFloat r) = check_amount_text (codepoints r)"
| "validate_amount VNone = check_amount_text (codepoints ''None'')"
| "validate_amount v = invalid_amount"

section \<open>initialize: the email check\<close>

text \<open>
  \<^verbatim>\<open>re.match(r"[^@]+@[^@]+\.[^@]+", email)\<close> looks for a match at the start of the
  text. The first \<^verbatim>\<open>[^@]+\<close> must stop at the first \<^verbatim>\<open>@\<close>; what follows up to the
  next \<^verbatim>\<open>@\<close> must hold a full stop that is neither its first nor its last character.
\<close>

definition not_at :: "char \<Rightarrow> bool" where
  "not_at c = (c \<noteq> CHR ''@'')"

definition re_match_email :: "string \<Rightarrow> bool" where
  "re_match_email email =
     (let local_part = takeWhile not_at email;
          rest = dropWhile not_at email;
          domain_part = takeWhile not_at (drop 1 rest)
      in local_part \<noteq> [] \<and> rest \<noteq> [] \<and> CHR ''.'' \<in> set (butlast (drop 1 domain_part)))"

section \<open>initialize and verify\<close>

definition add_customization :: "pydict \<Rightarrow> pydict option \<Rightarrow> pydict" where
  "add_customization data customization =
     (case customization of
        None \<Rightarrow> data
      | Some c \<Rightarrow>
          (if c = [] then data
           else
             (let d1 = (case dict_get c ''title'' of
                          None \<Rightarrow> data
                        | Some v \<Rightarrow> dict_setitem data ''customization[title]'' v);
                  d2 = (case dict_get c ''description'' of
                          None \<Rightarrow> d1
                        | Some v \<Rightarrow> dict_setitem d1 ''customization[description]'' v)
              in (case dict_get c ''logo'' of
                    None \<Rightarrow> d2
                  | Some v \<Rightarrow> dict_setitem d2 ''customization[logo]'' v))))"

definition add_callback_url :: "pydict \<Rightarrow> string option \<Rightarrow> pydict" where
  "add_callback_url data callback_url =
     (case callback_url of
        None \<Rightarrow> data
      | Some u \<Rightarrow> if u = [] then data else dict_setitem data ''callback_url'' (VStr u))"

definition initialize_data ::
  "string \<Rightarrow> pyval \<Rightarrow> string \<Rightarrow> string \<Rightarrow> string \<Rightarrow> string \<Rightarrow> string option \<Rightarrow> pydict option \<Rightarrow> pydict" where
  "initialize_data email amount first_name last_name tx_ref currency callback_url customization =
     (let data = [(''first_name'', VStr first_name), (''last_name'', VStr last_name),
                  (''tx_ref'', VStr tx_ref), (''currency'', VStr currency)];
          data = dict_setitem data ''amount'' amount;
          data = dict_setitem data ''email'' (VStr email);
          data = add_callback_url data callback_url
      in add_customization data customization)"

definition initialize ::
  "transport \<Rightarrow> world \<Rightarrow> string \<Rightarrow> pyval \<Rightarrow> string \<Rightarrow> string \<Rightarrow> string \<Rightarrow> string
     \<Rightarrow> string option \<Rightarrow> pydict option \<Rightarrow> pyarg \<Rightarrow> (pyexc + pyval) \<times> world" where
  "initialize net w email amount first_name last_name tx_ref currency callback_url customization hdrs =
     (case validate_amount amount of
        Inl e \<Rightarrow> (Inl e, w)
      | Inr u \<Rightarrow>
          (if \<not> re_match_email email then (Inl (ValueError ''invalid email''), w)
           else construct_request net w
                  (base_url (client w) @ ''/'' @ api_version (client w) @ ''/transaction/initialize'')
                  ''post''
                  (ArgDict (initialize_data email amount first_name last_name tx_ref currency
                              callback_url customization))
                  ArgNone hdrs))"

definition verify :: "transport \<Rightarrow> world \<Rightarrow> string \<Rightarrow> pyarg \<Rightarrow> (pyexc + pyval) \<times> world" where
  "verify net w transaction hdrs =
     construct_request net w
       (base_url (client w) @ ''/'' @ api_version (client w) @ ''/transaction/verify/'' @ transaction)
       ''get'' ArgNone ArgNone hdrs"

section \<open>Sequences of calls on one client\<close>

datatype call =
    SendRequest string string pyarg pyarg pyarg
  | Initialize string pyval string string string string "string option" "pydict option" pyarg
  | Verify string pyarg

fun run_call :: "transport \<Rightarrow> world \<Rightarrow> call \<Rightarrow> (pyexc + pyval) \<times> world" where
  "run_call net w (SendRequest url method data params hdrs) =
     send_request net w url method data params hdrs"
| "run_call net w (Initialize email amount first_name last_name tx_ref currency callback_url customization hdrs) =
     initialize net w email amount first_name last_name tx_ref currency callback_url customization hdrs"
| "run_call net w (Verify transaction hdrs) = verify net w transaction hdrs"

text \<open>The caller catches what a call raises and goes on with the same client.\<close>

fun run_calls :: "transport \<Rightarrow> world \<Rightarrow> call list \<Rightarrow> world" where
  "run_calls net w [] = w"
| "run_calls net w (c # cs) = run_calls net (snd (run_call net w c)) cs"

fun call_headers :: "call \<Rightarrow> pyarg" where
  "call_headers (SendRequest url method data params hdrs) = hdrs"
| "call_headers (Initialize email amount first_name last_name tx_ref currency callback_url customization hdrs) = hdrs"
| "call_headers (Verify transaction hdrs) = hdrs"

fun names_key :: "string \<Rightarrow> pyarg \<Rightarrow> bool" where
  "names_key k (ArgDict kvs) = (k \<in> set (map fst kvs))"
| "names_key k (ArgPairs kvs) = (k \<in> set (map fst kvs))"
| "names_key k a = False"

definition authorized :: "world \<Rightarrow> bool" where
  "authorized w =
     (dict_get (headers (client w)) ''Authorization'' = Some (VStr (''Bearer '' @ key (client w))))"

text \<open>A fresh client and a server that answers every request with the same body.\<close>

definition new_world :: "chapa \<Rightarrow> world" where
  "new_world c = \<lparr> client = c, sent = [] \<rparr>"

definition test_client :: chapa where
  "test_client = \<lparr> key = ''sk_test_x'', base_url = ''https://api.chapa.co'', api_version = ''v1'',
                    response_format = ''json'',
                    headers = [(''Authorization'', VStr ''Bearer sk_test_x'')] \<rparr>"

definition test_net :: transport where
  "test_net req = Inr (VDict [(''status'', VStr ''success''),
                             (''data'', VDict [(''checkout_url'', VStr ''https://checkout.chapa.co/x'')])])"

section \<open>Reading the results\<close>

text \<open>
  \<^verbatim>\<open>getattr(obj, name)\<close> on a \<^verbatim>\<open>Response\<close> instance, as \<^verbatim>\<open>object.__getattribute__\<close>
  resolves it. A data descriptor of the type comes first: \<^verbatim>\<open>__class__\<close> of
  \<^verbatim>\<open>object\<close>, and \<^verbatim>\<open>__dict__\<close> and \<^verbatim>\<open>__weakref__\<close> of a class without slots. Then
  comes the entry of the instance dictionary. A name that is neither is looked up on
  the class, which has its methods and \<^verbatim>\<open>__doc__\<close> and raises \<^verbatim>\<open>AttributeError\<close> for
  the rest; that lookup, and what a descriptor returns, are named and not modelled
  further. The attributes of any other value are those of its own class.
\<close>

datatype attribute = InstanceAttr pyval | DataDescriptor string | ClassLookup string

definition data_descriptors :: "string list" where
  "data_descriptors = [''__class__'', ''__dict__'', ''__weakref__'']"

fun getattr_response :: "pyval \<Rightarrow> string \<Rightarrow> attribute" where
  "getattr_response (VResponse kvs) name =
     (if name \<in> set data_descriptors then DataDescriptor name
      else (case map_of kvs name of
              None \<Rightarrow> ClassLookup name
            | Some v \<Rightarrow> InstanceAttr v))"
| "getattr_response v name = ClassLookup name"

text \<open>
  \<^verbatim>\<open>vars_view\<close> reads an object graph back as plain data: every \<^verbatim>\<open>Response\<close> node
  is replaced by its instance dictionary (\<^verbatim>\<open>vars(obj)\<close>), all the way down.
  \<^verbatim>\<open>no_dicts\<close> holds of a value in which no dictionary is left.
\<close>

fun vars_view :: "pyval \<Rightarrow> pyval" where
  "vars_view (VList xs) = VList (map vars_view xs)"
| "vars_view (VDict kvs) = VDict (map (\<lambda>kv. (fst kv, vars_view (snd kv))) kvs)"
| "vars_view (VResponse kvs) = VDict (map (\<lambda>kv. (fst kv, vars_view (snd kv))) kvs)"
| "vars_view v = v"

fun no_dicts :: "pyval \<Rightarrow> bool" where
  "no_dicts (VList xs) = list_all no_dicts xs"
| "no_dicts (VDict kvs) = False"
| "no_dicts (VResponse kvs) = list_all (\<lambda>kv. no_dicts (snd kv)) kvs"
| "no_dicts v = True"

text \<open>
  The texts with a match of \<^verbatim>\<open>[^@]+@[^@]+\.[^@]+\<close> at their start, written out: one
  or more characters other than \<^verbatim>\<open>@\<close>, an \<^verbatim>\<open>@\<close>, one or more characters other than
  \<^verbatim>\<open>@\<close>, a full stop, one or more characters other than \<^verbatim>\<open>@\<close>, then anything.
\<close>

definition email_pattern :: "string \<Rightarrow> bool" where
  "email_pattern email =
     (\<exists>a b c r. email = a @ ''@'' @ b @ ''.'' @ c @ r
        \<and> a \<noteq> [] \<and> b \<noteq> [] \<and> c \<noteq> []
        \<and> list_all not_at a \<and> list_all not_at b \<and> list_all not_at c)"



section \<open>Clients and calls used as examples\<close>

definition obj_world :: world where
  "obj_world = new_world (test_client \<lparr> response_format := ''obj'' \<rparr>)"

definition test_request :: http_request where
  "test_request = \<lparr> req_method = ''post'', req_url = ''https://api.chapa.co/v1/x'',
       req_data = ArgDict [], req_headers = [(''Authorization'', VStr ''Bearer sk_test_x'')] \<rparr>"

definition test_body :: pyval where
  "test_body = VDict [(''status'', VStr ''success''),
                      (''data'', VDict [(''checkout_url'', VStr ''https://checkout.chapa.co/x'')])]"

text \<open>A server whose answer has the key \<^verbatim>\<open>__class__\<close>.\<close>

definition dunder_net :: transport where
  "dunder_net req = Inr (VDict [(''__class__'', VStr ''premium'')])"

definition override_call :: call where
  "override_call = Initialize ''a@b.com'' (VInt 100) ''A'' ''B'' ''tx1'' ''ETB'' None None
      (ArgDict [(''Authorization'', VStr ''Bearer other'')])"

definition traced_calls :: "call list" where
  "traced_calls = [Initialize ''a@b.com'' (VInt 100) ''A'' ''B'' ''tx1'' ''ETB'' None None
                     (ArgDict [(''X-Trace'', VStr ''7'')]),
                   Verify ''tx1'' ArgNone]"

section \<open>Facts about send\_request shared by the results\<close>

lemma send_request_bad_method:
  "method \<notin> set allowed_methods \<Longrightarrow>
   send_request net w url method data params hdrs =
     (Inl (ValueError ''Please provide a valid method, allowed methods are: ['post', 'put']''), w)"
  by (simp add: send_request_def)

lemma get_not_allowed: "''get'' \<notin> set allowed_methods"
  by (simp add: allowed_methods_def)

lemma post_allowed: "''post'' \<in> set allowed_methods"
  by (simp add: allowed_methods_def)

lemma construct_request_error:
  "send_request net w url method data params hdrs = (Inl e, w') \<Longrightarrow>
   construct_request net w url method data params hdrs = (Inl e, w')"
  by (simp add: construct_request_def)

lemma send_request_format:
  "response_format (client (snd (send_request net w url method data params hdrs))) =
   response_format (client w)"
  by (simp add: send_request_def Let_def split: sum.splits)

lemma send_request_none_headers:
  assumes "method \<in> set allowed_methods"
    and "params = ArgNone \<or> isinstance_dict params"
    and "data = ArgNone \<or> isinstance_dict data"
  shows "send_request net w url method data params ArgNone =
     (Inl (TypeError '''NoneType' object is not iterable''), w)"
  using assms by (auto simp add: send_request_def)

lemma send_request_sends:
  "method \<in> set allowed_methods \<Longrightarrow> params = ArgNone \<or> isinstance_dict params \<Longrightarrow>
   dict_update (headers (client w)) hdrs = Inr h \<Longrightarrow>
   send_request net w url method (ArgDict d) params hdrs =
     (net \<lparr> req_method = method, req_url = url, req_data = ArgDict d, req_headers = h \<rparr>,
      \<lparr> client = (client w)\<lparr> headers := h \<rparr>,
        sent = sent w @ [\<lparr> req_method = method, req_url = url, req_data = ArgDict d,
                           req_headers = h \<rparr>] \<rparr>)"
  by (auto simp add: send_request_def Let_def)

lemma email_ab: "re_match_email ''a@b.com''"
  by (simp add: re_match_email_def not_at_def)

lemma amount_100: "validate_amount (VInt 100) = Inr ()"
  by simp

section \<open>The end-to-end call of initialize with the defaults\<close>

text \<open>
  C1. The claim: a client built from the secret \<^verbatim>\<open>sk_test_x\<close> with the defaults, called
  as \<^verbatim>\<open>initialize(email="a@b.com", amount=100, first_name="A", last_name="B",
  tx_ref="tx1")\<close>, issues one POST and returns its result. The code does not: with
  \<^verbatim>\<open>headers\<close> left at its default \<^verbatim>\<open>None\<close>, \<^verbatim>\<open>self.headers.update(headers)\<close> raises
  \<^verbatim>\<open>TypeError\<close>, the client is as it was and no request has been issued, whatever
  the server would answer.
\<close>

theorem initialize_defaults_raises_type_error:
  "chapa_default ''sk_test_x'' = Inr test_client
   \<and> initialize net (new_world test_client) ''a@b.com'' (VInt 100) ''A'' ''B'' ''tx1'' ''ETB''
        None None ArgNone
      = (Inl (TypeError '''NoneType' object is not iterable''), new_world test_client)
   \<and> sent (new_world test_client) = []"
proof -
  have "chapa_default ''sk_test_x'' = Inr test_client"
    by (simp add: chapa_default_def chapa_init_def test_client_def)
  moreover have "initialize net (new_world test_client) ''a@b.com'' (VInt 100) ''A'' ''B'' ''tx1''
        ''ETB'' None None ArgNone
      = (Inl (TypeError '''NoneType' object is not iterable''), new_world test_client)"
    unfolding initialize_def
    using email_ab
    by (simp add: construct_request_error send_request_none_headers post_allowed)
  ultimately show ?thesis by (simp add: new_world_def)
qed

section \<open>verify\<close>

text \<open>
  C2. The claim: \<^verbatim>\<open>verify\<close> dispatches one GET to
  \<^verbatim>\<open>{base_url}/{api_version}/transaction/verify/{transaction}\<close> and returns the adapted
  response. The code does not: \<^verbatim>\<open>verify\<close> hands the method \<^verbatim>\<open>get\<close> to
  \<^verbatim>\<open>send_request\<close>, whose first test refuses every method outside
  \<^verbatim>\<open>allowed_methods\<close>. For every client, transaction and \<^verbatim>\<open>headers\<close> argument the call
  raises \<^verbatim>\<open>ValueError\<close> and leaves the client and the list of issued requests as
  they were.
\<close>

theorem verify_always_raises_value_error:
  "verify net w transaction hdrs =
     (Inl (ValueError ''Please provide a valid method, allowed methods are: ['post', 'put']''), w)"
  unfolding verify_def
  by (rule construct_request_error) (rule send_request_bad_method [OF get_not_allowed])

section \<open>The method and body checks of send\_request\<close>

text \<open>
  C5. \<^verbatim>\<open>send_request\<close> raises the \<^verbatim>\<open>ValueError\<close> of the method check for every
  method outside \<^verbatim>\<open>allowed_methods\<close>, so for \<^verbatim>\<open>get\<close>; with the method \<^verbatim>\<open>post\<close> and
  a body that is given and is not a dictionary it raises the \<^verbatim>\<open>ValueError\<close> of an
  argument check (that of \<^verbatim>\<open>params\<close> when \<^verbatim>\<open>params\<close> is malformed too, since that
  check comes first, that of \<^verbatim>\<open>data\<close> otherwise). In both cases the state is
  returned as it was: no request is issued.
\<close>

theorem send_request_rejects_method_and_body:
  "(method \<notin> set allowed_methods \<longrightarrow>
      send_request net w url method data params hdrs =
        (Inl (ValueError ''Please provide a valid method, allowed methods are: ['post', 'put']''), w))
   \<and> send_request net w url ''get'' data params hdrs =
        (Inl (ValueError ''Please provide a valid method, allowed methods are: ['post', 'put']''), w)
   \<and> (data \<noteq> ArgNone \<and> \<not> isinstance_dict data \<longrightarrow>
        send_request net w url ''post'' data params hdrs =
          (Inl (ValueError (if params \<noteq> ArgNone \<and> \<not> isinstance_dict params
                            then ''params must be a dict'' else ''data must be a dict'')), w))"
  using get_not_allowed post_allowed by (simp add: send_request_def)

theorem send_request_rejects_method_and_body_witness:
  "''delete'' \<notin> set allowed_methods
   \<and> send_request test_net (new_world test_client) ''https://api.chapa.co/v1/banks'' ''delete''
        ArgNone ArgNone ArgNone =
        (Inl (ValueError ''Please provide a valid method, allowed methods are: ['post', 'put']''),
         new_world test_client)
   \<and> ArgStr ''amount=1'' \<noteq> ArgNone \<and> \<not> isinstance_dict (ArgStr ''amount=1'')
   \<and> send_request test_net (new_world test_client) ''https://api.chapa.co/v1/banks'' ''post''
        (ArgStr ''amount=1'') ArgNone (ArgDict []) =
        (Inl (ValueError ''data must be a dict''), new_world test_client)"
  using send_request_rejects_method_and_body
          [of "''delete''" test_net "new_world test_client" "''https://api.chapa.co/v1/banks''"
              ArgNone ArgNone ArgNone]
        send_request_rejects_method_and_body
          [of "''post''" test_net "new_world test_client" "''https://api.chapa.co/v1/banks''"
              "ArgStr ''amount=1''" ArgNone "ArgDict []"]
  by (simp add: allowed_methods_def)

section \<open>The headers check of send\_request\<close>

text \<open>
  C6. The claim: with an allowed method, a \<^verbatim>\<open>headers\<close> argument that is given and is
  not a dictionary makes \<^verbatim>\<open>send_request\<close> raise the \<^verbatim>\<open>ValueError\<close>
  \<^verbatim>\<open>headers must be a dict\<close> before any request. The test of the code reads
  \<^verbatim>\<open>isinstance(data, dict)\<close>, not \<^verbatim>\<open>isinstance(headers, dict)\<close>: with a dictionary
  as body, a list of pairs as \<^verbatim>\<open>headers\<close> is merged into the client's headers and the
  request is issued, and the integer 5 as \<^verbatim>\<open>headers\<close> gets the \<^verbatim>\<open>TypeError\<close> of
  \<^verbatim>\<open>dict.update\<close>.
\<close>

theorem send_request_headers_check_reads_data:
  "send_request net (new_world test_client) ''https://api.chapa.co/v1/transaction/initialize''
      ''post'' (ArgDict [(''amount'', VInt 100)]) ArgNone (ArgPairs [(''X-Trace'', VStr ''7'')])
   = (net \<lparr> req_method = ''post'', req_url = ''https://api.chapa.co/v1/transaction/initialize'',
            req_data = ArgDict [(''amount'', VInt 100)],
            req_headers = [(''Authorization'', VStr ''Bearer sk_test_x''),
                           (''X-Trace'', VStr ''7'')] \<rparr>,
      \<lparr> client = test_client \<lparr> headers := [(''Authorization'', VStr ''Bearer sk_test_x''),
                                            (''X-Trace'', VStr ''7'')] \<rparr>,
        sent = [\<lparr> req_method = ''post'',
                  req_url = ''https://api.chapa.co/v1/transaction/initialize'',
                  req_data = ArgDict [(''amount'', VInt 100)],
                  req_headers = [(''Authorization'', VStr ''Bearer sk_test_x''),
                                 (''X-Trace'', VStr ''7'')] \<rparr>] \<rparr>)
   \<and> send_request net (new_world test_client) ''https://api.chapa.co/v1/transaction/initialize''
      ''post'' (ArgDict [(''amount'', VInt 100)]) ArgNone (ArgInt 5)
   = (Inl (TypeError '''int' object is not iterable''), new_world test_client)"
  by (simp add: send_request_def allowed_methods_def new_world_def test_client_def Let_def)

section \<open>The response format json\<close>

text \<open>
  C7. With the response format \<^verbatim>\<open>json\<close> (the raw format), \<^verbatim>\<open>_construct_request\<close>
  returns what \<^verbatim>\<open>send_request\<close> returns, unchanged, whatever the result is (a
  dictionary, any other value, or an exception), and leaves the same state.
\<close>

theorem construct_request_json_identity:
  "response_format (client w) = ''json'' \<Longrightarrow>
   construct_request net w url method data params hdrs =
   send_request net w url method data params hdrs"
proof -
  assume fmt: "response_format (client w) = ''json''"
  obtain r w' where sr: "send_request net w url method data params hdrs = (r, w')"
    by (cases "send_request net w url method data params hdrs")
  have "response_format (client w') = ''json''"
    using send_request_format [of net w url "method" "data" params hdrs] sr fmt by simp
  then show ?thesis
    using sr by (cases r) (simp_all add: construct_request_def)
qed

theorem construct_request_json_identity_witness:
  "response_format (client (new_world test_client)) = ''json''
   \<and> construct_request test_net (new_world test_client) ''https://api.chapa.co/v1/x'' ''post''
        (ArgDict []) ArgNone (ArgDict [])
       = send_request test_net (new_world test_client) ''https://api.chapa.co/v1/x'' ''post''
        (ArgDict []) ArgNone (ArgDict [])
   \<and> fst (construct_request test_net (new_world test_client) ''https://api.chapa.co/v1/x'' ''post''
        (ArgDict []) ArgNone (ArgDict []))
       = Inr (VDict [(''status'', VStr ''success''),
                     (''data'', VDict [(''checkout_url'', VStr ''https://checkout.chapa.co/x'')])])"
proof -
  have h: "response_format (client (new_world test_client)) = ''json''"
    by (simp add: new_world_def test_client_def)
  have s: "fst (send_request test_net (new_world test_client) ''https://api.chapa.co/v1/x''
        ''post'' (ArgDict []) ArgNone (ArgDict []))
       = Inr (VDict [(''status'', VStr ''success''),
                     (''data'', VDict [(''checkout_url'', VStr ''https://checkout.chapa.co/x'')])])"
    by (simp add: send_request_def allowed_methods_def test_net_def Let_def)
  show ?thesis
    using h s construct_request_json_identity
                [OF h, of test_net "''https://api.chapa.co/v1/x''" "''post''" "ArgDict []"
                    ArgNone "ArgDict []"]
    by simp
qed

section \<open>A call without headers\<close>

text \<open>
  C10, as claimed: every call of \<^verbatim>\<open>send_request\<close> with \<^verbatim>\<open>headers\<close> omitted or
  \<^verbatim>\<open>None\<close>, those of \<^verbatim>\<open>initialize\<close> and \<^verbatim>\<open>verify\<close> included, raises \<^verbatim>\<open>TypeError\<close>
  at the merge. That fails for a call that an earlier check stops: \<^verbatim>\<open>verify\<close>
  without headers raises the \<^verbatim>\<open>ValueError\<close> of the method check.
\<close>

theorem verify_without_headers_raises_value_error:
  "verify test_net (new_world test_client) ''tx1'' ArgNone =
     (Inl (ValueError ''Please provide a valid method, allowed methods are: ['post', 'put']''),
      new_world test_client)
   \<and> ValueError ''Please provide a valid method, allowed methods are: ['post', 'put']''
       \<noteq> TypeError '''NoneType' object is not iterable''"
  unfolding verify_def
  by (simp add: construct_request_error send_request_bad_method get_not_allowed)

text \<open>
  C10, amended: every call of \<^verbatim>\<open>send_request\<close> with an allowed method, with
  \<^verbatim>\<open>params\<close> and \<^verbatim>\<open>data\<close> each \<^verbatim>\<open>None\<close> or a dictionary, and with \<^verbatim>\<open>headers\<close>
  \<^verbatim>\<open>None\<close> raises the \<^verbatim>\<open>TypeError\<close> of \<^verbatim>\<open>dict.update(None)\<close> and returns the state
  as it was, so before any request; so does every call of \<^verbatim>\<open>initialize\<close> without
  headers whose amount and email pass their checks.
\<close>

theorem none_headers_raise_type_error:
  "(method \<in> set allowed_methods \<and> (params = ArgNone \<or> isinstance_dict params)
      \<and> (data = ArgNone \<or> isinstance_dict data) \<longrightarrow>
      send_request net w url method data params ArgNone =
        (Inl (TypeError '''NoneType' object is not iterable''), w))
   \<and> (validate_amount amount = Inr () \<and> re_match_email email \<longrightarrow>
      initialize net w email amount first_name last_name tx_ref currency callback_url
        customization ArgNone =
        (Inl (TypeError '''NoneType' object is not iterable''), w))"
proof (intro conjI impI)
  assume "method \<in> set allowed_methods \<and> (params = ArgNone \<or> isinstance_dict params)
      \<and> (data = ArgNone \<or> isinstance_dict data)"
  then show "send_request net w url method data params ArgNone =
        (Inl (TypeError '''NoneType' object is not iterable''), w)"
    by (simp add: send_request_none_headers)
next
  assume a: "validate_amount amount = Inr () \<and> re_match_email email"
  show "initialize net w email amount first_name last_name tx_ref currency callback_url
        customization ArgNone =
        (Inl (TypeError '''NoneType' object is not iterable''), w)"
    unfolding initialize_def using a
    by (simp add: construct_request_error send_request_none_headers post_allowed)
qed

theorem none_headers_raise_type_error_witness:
  "''put'' \<in> set allowed_methods \<and> (ArgNone = ArgNone \<or> isinstance_dict ArgNone)
   \<and> (ArgDict [(''a'', VInt 1)] = ArgNone \<or> isinstance_dict (ArgDict [(''a'', VInt 1)]))
   \<and> send_request test_net (new_world test_client) ''https://api.chapa.co/v1/x'' ''put''
        (ArgDict [(''a'', VInt 1)]) ArgNone ArgNone =
        (Inl (TypeError '''NoneType' object is not iterable''), new_world test_client)
   \<and> validate_amount (VInt 100) = Inr () \<and> re_match_email ''a@b.com''
   \<and> initialize test_net (new_world test_client) ''a@b.com'' (VInt 100) ''A'' ''B'' ''tx1''
        ''ETB'' None None ArgNone =
        (Inl (TypeError '''NoneType' object is not iterable''), new_world test_client)"
  using none_headers_raise_type_error
          [of "''put''" ArgNone "ArgDict [(''a'', VInt 1)]" test_net "new_world test_client"
              "''https://api.chapa.co/v1/x''" "VInt 100" "''a@b.com''" "''A''" "''B''" "''tx1''"
              "''ETB''" None None]
        email_ab amount_100
  by (simp add: allowed_methods_def)

section \<open>The Authorization header over a sequence of calls\<close>

lemma map_of_dict_setitem: "map_of (dict_setitem d k v) = (map_of d)(k \<mapsto> v)"
  by (induction d) auto

lemma map_of_dict_setitems_other:
  "k \<notin> fst ` set kvs \<Longrightarrow> map_of (dict_setitems d kvs) k = map_of d k"
  by (induction kvs arbitrary: d) (auto simp add: map_of_dict_setitem)

lemma keys_dict_setitem: "fst ` set (dict_setitem d k v) = insert k (fst ` set d)"
proof (induction d)
  case Nil
  show ?case by simp
next
  case (Cons x d)
  obtain k' v' where x: "x = (k', v')" by (cases x)
  show ?case
  proof (cases "k' = k")
    case True
    then show ?thesis using x by simp
  next
    case False
    then show ?thesis using x Cons.IH by (simp add: insert_commute)
  qed
qed

lemma keys_dict_setitems: "fst ` set d \<subseteq> fst ` set (dict_setitems d kvs)"
proof (induction kvs arbitrary: d)
  case Nil
  show ?case by simp
next
  case (Cons x kvs)
  obtain k v where x: "x = (k, v)" by (cases x)
  have "fst ` set d \<subseteq> fst ` set (dict_setitem d k v)"
    by (simp add: keys_dict_setitem subset_insertI)
  also have "\<dots> \<subseteq> fst ` set (dict_setitems (dict_setitem d k v) kvs)"
    by (rule Cons.IH)
  finally show ?case using x by simp
qed

lemma dict_update_other:
  "\<not> names_key k hdrs \<Longrightarrow> dict_update d hdrs = Inr h \<Longrightarrow> map_of h k = map_of d k"
  by (cases hdrs) (auto simp add: map_of_dict_setitems_other split: if_splits)

lemma dict_update_keys:
  assumes "dict_update d hdrs = Inr h"
  shows "fst ` set d \<subseteq> fst ` set h"
proof (cases hdrs)
  case (ArgDict kvs)
  then have "h = dict_setitems d kvs" using assms by simp
  then show ?thesis by (simp add: keys_dict_setitems)
next
  case (ArgPairs kvs)
  then have "h = dict_setitems d kvs" using assms by simp
  then show ?thesis by (simp add: keys_dict_setitems)
next
  case (ArgStr s)
  then have "h = d" using assms by (simp split: if_splits)
  then show ?thesis by simp
next
  case ArgNone
  then show ?thesis using assms by simp
next
  case (ArgInt n)
  then show ?thesis using assms by simp
qed

lemma send_request_state:
  "snd (send_request net w url meth body params hdrs) = w
   \<or> (\<exists>h rs. dict_update (headers (client w)) hdrs = Inr h
        \<and> snd (send_request net w url meth body params hdrs)
            = \<lparr> client = (client w)\<lparr> headers := h \<rparr>, sent = rs \<rparr>)"
  by (simp add: send_request_def Let_def split: sum.splits)

lemma construct_request_state:
  "snd (construct_request net w url meth body params hdrs) =
   snd (send_request net w url meth body params hdrs)"
  by (simp add: construct_request_def split: prod.splits sum.splits)

lemma initialize_state:
  "snd (initialize net w email amount first_name last_name tx_ref currency callback_url customization hdrs) = w
   \<or> (\<exists>url body. snd (initialize net w email amount first_name last_name tx_ref currency callback_url customization hdrs)
         = snd (send_request net w url ''post'' body ArgNone hdrs))"
  by (simp add: initialize_def construct_request_state split: sum.splits) blast

lemma verify_state: "snd (verify net w transaction hdrs) = w"
  unfolding verify_def construct_request_state
  by (simp add: send_request_bad_method get_not_allowed)

lemma run_call_state:
  "snd (run_call net w c) = w
   \<or> (\<exists>h rs. dict_update (headers (client w)) (call_headers c) = Inr h
        \<and> snd (run_call net w c) = \<lparr> client = (client w)\<lparr> headers := h \<rparr>, sent = rs \<rparr>)"
proof (cases c)
  case (SendRequest url meth body params hdrs)
  then show ?thesis using send_request_state [of net w url meth body params hdrs] by simp
next
  case (Initialize email amount first_name last_name tx_ref currency callback_url customization hdrs)
  have "snd (run_call net w c) = w
     \<or> (\<exists>url body. snd (run_call net w c) = snd (send_request net w url ''post'' body ArgNone hdrs))"
    using initialize_state [of net w email amount first_name last_name tx_ref currency callback_url customization hdrs]
      Initialize by simp
  then show ?thesis
  proof
    assume "snd (run_call net w c) = w"
    then show ?thesis by simp
  next
    assume "\<exists>url body. snd (run_call net w c) = snd (send_request net w url ''post'' body ArgNone hdrs)"
    then obtain url body where e: "snd (run_call net w c) = snd (send_request net w url ''post'' body ArgNone hdrs)"
      by blast
    show ?thesis
      using send_request_state [of net w url "''post''" body ArgNone hdrs] e Initialize by simp
  qed
next
  case (Verify transaction hdrs)
  then show ?thesis by (simp add: verify_state)
qed

lemma run_call_key: "key (client (snd (run_call net w c))) = key (client w)"
  using run_call_state [of net w c] by auto

lemma run_call_has_key:
  assumes "k \<in> fst ` set (headers (client w))"
  shows "k \<in> fst ` set (headers (client (snd (run_call net w c))))"
proof -
  from run_call_state [of net w c] show ?thesis
  proof
    assume "snd (run_call net w c) = w"
    then show ?thesis using assms by simp
  next
    assume "\<exists>h rs. dict_update (headers (client w)) (call_headers c) = Inr h
        \<and> snd (run_call net w c) = \<lparr> client = (client w)\<lparr> headers := h \<rparr>, sent = rs \<rparr>"
    then obtain h rs where u: "dict_update (headers (client w)) (call_headers c) = Inr h"
      and s: "snd (run_call net w c) = \<lparr> client = (client w)\<lparr> headers := h \<rparr>, sent = rs \<rparr>"
      by blast
    have "k \<in> fst ` set h" using dict_update_keys [OF u] assms by blast
    then show ?thesis using s by simp
  qed
qed

lemma run_call_authorized:
  assumes "authorized w" and "\<not> names_key ''Authorization'' (call_headers c)"
  shows "authorized (snd (run_call net w c))"
proof -
  from run_call_state [of net w c] show ?thesis
  proof
    assume "snd (run_call net w c) = w"
    then show ?thesis using assms by simp
  next
    assume "\<exists>h rs. dict_update (headers (client w)) (call_headers c) = Inr h
        \<and> snd (run_call net w c) = \<lparr> client = (client w)\<lparr> headers := h \<rparr>, sent = rs \<rparr>"
    then obtain h rs where u: "dict_update (headers (client w)) (call_headers c) = Inr h"
      and s: "snd (run_call net w c) = \<lparr> client = (client w)\<lparr> headers := h \<rparr>, sent = rs \<rparr>"
      by blast
    have "map_of h ''Authorization'' = map_of (headers (client w)) ''Authorization''"
      using dict_update_other [OF assms(2) u] .
    then show ?thesis using s assms(1) by (simp add: authorized_def dict_get_def)
  qed
qed

lemma run_calls_key: "key (client (run_calls net w cs)) = key (client w)"
  by (induction cs arbitrary: w) (simp_all add: run_call_key)

lemma run_calls_has_key:
  "k \<in> fst ` set (headers (client w)) \<Longrightarrow>
   k \<in> fst ` set (headers (client (run_calls net w cs)))"
proof (induction cs arbitrary: w)
  case Nil
  then show ?case by simp
next
  case (Cons c cs)
  have "k \<in> fst ` set (headers (client (snd (run_call net w c))))"
    using Cons.prems by (rule run_call_has_key)
  then show ?case using Cons.IH by simp
qed

lemma run_calls_authorized:
  "authorized w \<Longrightarrow> list_all (\<lambda>c. \<not> names_key ''Authorization'' (call_headers c)) cs \<Longrightarrow>
   authorized (run_calls net w cs)"
proof (induction cs arbitrary: w)
  case Nil
  then show ?case by simp
next
  case (Cons c cs)
  have "authorized (snd (run_call net w c))"
    using Cons.prems by (simp add: run_call_authorized)
  then show ?case using Cons.IH Cons.prems by simp
qed

lemma list_all_take: "list_all P xs \<Longrightarrow> list_all P (take n xs)"
  by (auto simp add: list_all_iff dest: in_set_takeD)

lemma chapa_init_authorized:
  "chapa_init secret base_ur api_ver fmt = Inr c \<Longrightarrow>
   authorized (new_world c) \<and> key c = secret \<and> ''Authorization'' \<in> fst ` set (headers c)"
  by (auto simp add: chapa_init_def authorized_def new_world_def dict_get_def split: if_splits)

lemma test_client_init: "chapa_init ''sk_test_x'' ''https://api.chapa.co'' ''v1'' ''json'' = Inr test_client"
  by (simp add: chapa_init_def test_client_def)

lemma test_world_authorized: "authorized (new_world test_client)"
  by (simp add: authorized_def dict_get_def new_world_def test_client_def)

text \<open>
  authorization_kept_without_override, as claimed: after any sequence of calls the client's headers hold
  \<^verbatim>\<open>Authorization\<close> with the value \<^verbatim>\<open>Bearer\<close> and the secret. That fails for a call
  whose own headers name \<^verbatim>\<open>Authorization\<close>: \<^verbatim>\<open>self.headers.update(headers)\<close>
  replaces the entry of the client, for this call and every later one.
\<close>

theorem authorization_replaced_by_caller:
  "authorized (new_world test_client)
   \<and> \<not> authorized (run_calls test_net (new_world test_client) [override_call])
   \<and> dict_get (headers (client (run_calls test_net (new_world test_client) [override_call])))
        ''Authorization'' = Some (VStr ''Bearer other'')"
proof -
  let ?h = "ArgDict [(''Authorization'', VStr ''Bearer other'')]"
  let ?w = "new_world test_client"
  let ?url = "base_url (client ?w) @ ''/'' @ api_version (client ?w) @ ''/transaction/initialize''"
  let ?d = "initialize_data ''a@b.com'' (VInt 100) ''A'' ''B'' ''tx1'' ''ETB'' None None"
  have u: "dict_update (headers (client ?w)) ?h = Inr [(''Authorization'', VStr ''Bearer other'')]"
    by (simp add: new_world_def test_client_def)
  have i: "snd (run_call test_net ?w override_call) = snd (send_request test_net ?w ?url ''post'' (ArgDict ?d) ArgNone ?h)"
    using email_ab by (simp add: override_call_def initialize_def construct_request_state)
  have s: "headers (client (snd (send_request test_net ?w ?url ''post'' (ArgDict ?d) ArgNone ?h)))
             = [(''Authorization'', VStr ''Bearer other'')]"
       "key (client (snd (send_request test_net ?w ?url ''post'' (ArgDict ?d) ArgNone ?h))) = ''sk_test_x''"
    using send_request_sends [OF post_allowed _ u, of ArgNone test_net ?url ?d]
    by (simp_all add: new_world_def test_client_def)
  have r: "headers (client (run_calls test_net ?w [override_call])) = [(''Authorization'', VStr ''Bearer other'')]"
       "key (client (run_calls test_net ?w [override_call])) = ''sk_test_x''"
    using i s by simp_all
  show ?thesis
    using test_world_authorized r by (simp add: authorized_def dict_get_def)
qed

text \<open>
  authorization_kept_without_override, amended: for a client as \<^verbatim>\<open>__init__\<close> builds it and any sequence of calls of
  \<^verbatim>\<open>send_request\<close>, \<^verbatim>\<open>initialize\<close> and \<^verbatim>\<open>verify\<close>, before and after every call
  (after every prefix of the sequence) the headers of the client have the key
  \<^verbatim>\<open>Authorization\<close> and the secret is unchanged; the value of the entry is
  \<^verbatim>\<open>Bearer\<close> and the secret as long as no call passes headers (a dictionary or a
  list of pairs) with the key \<^verbatim>\<open>Authorization\<close>.
\<close>

theorem authorization_kept_without_override:
  assumes "chapa_init secret base_ur api_ver fmt = Inr c"
  shows "(list_all (\<lambda>c. \<not> names_key ''Authorization'' (call_headers c)) cs \<longrightarrow>
            (\<forall>n. authorized (run_calls net (new_world c) (take n cs))))
       \<and> (\<forall>n. ''Authorization'' \<in> fst ` set (headers (client (run_calls net (new_world c) (take n cs))))
              \<and> key (client (run_calls net (new_world c) (take n cs))) = secret)"
proof -
  have a: "authorized (new_world c)" and k: "key (client (new_world c)) = secret"
    and p: "''Authorization'' \<in> fst ` set (headers (client (new_world c)))"
    using chapa_init_authorized [OF assms] by (simp_all add: new_world_def)
  show ?thesis
    using a k p by (simp add: run_calls_authorized list_all_take run_calls_key run_calls_has_key)
qed

theorem authorization_kept_without_override_witness:
  "chapa_init ''sk_test_x'' ''https://api.chapa.co'' ''v1'' ''json'' = Inr test_client
   \<and> list_all (\<lambda>c. \<not> names_key ''Authorization'' (call_headers c)) traced_calls
   \<and> authorized (run_calls test_net (new_world test_client) traced_calls)
   \<and> ''Authorization'' \<in> fst ` set (headers (client (run_calls test_net (new_world test_client) traced_calls)))
   \<and> key (client (run_calls test_net (new_world test_client) traced_calls)) = ''sk_test_x''"
proof -
  have l: "list_all (\<lambda>c. \<not> names_key ''Authorization'' (call_headers c)) traced_calls"
    by (simp add: traced_calls_def)
  have t: "take 2 traced_calls = traced_calls"
    by (simp add: traced_calls_def)
  have "authorized (run_calls test_net (new_world test_client) (take 2 traced_calls))
     \<and> ''Authorization'' \<in> fst ` set (headers (client (run_calls test_net (new_world test_client) (take 2 traced_calls))))
     \<and> key (client (run_calls test_net (new_world test_client) (take 2 traced_calls))) = ''sk_test_x''"
    using authorization_kept_without_override [OF test_client_init, of traced_calls test_net] l by blast
  then show ?thesis using l t test_client_init by simp
qed

section \<open>The response format obj\<close>

lemma vars_view_loads_dumps: "json_serializable v \<Longrightarrow> vars_view (loads_dumps v) = v"
proof (induction v)
  case (VList xs)
  then show ?case by (simp add: list_all_iff map_idI)
next
  case (VDict kvs)
  have "map (\<lambda>kv. (fst kv, vars_view (loads_dumps (snd kv)))) kvs = map (\<lambda>kv. kv) kvs"
  proof (rule map_cong [OF refl])
    fix kv assume m: "kv \<in> set kvs"
    have "json_serializable (snd kv)" using VDict.prems m by (simp add: list_all_iff)
    moreover have "snd kv \<in> Basic_BNFs.snds kv" by (cases kv) simp
    ultimately have "vars_view (loads_dumps (snd kv)) = snd kv" using VDict.IH m by blast
    then show "(fst kv, vars_view (loads_dumps (snd kv))) = kv" by (cases kv) simp
  qed
  then show ?case by (simp add: comp_def)
qed simp_all

lemma no_dicts_loads_dumps: "json_serializable v \<Longrightarrow> no_dicts (loads_dumps v)"
proof (induction v)
  case (VList xs)
  then show ?case by (simp add: list_all_iff)
next
  case (VDict kvs)
  have "\<forall>kv\<in>set kvs. no_dicts (loads_dumps (snd kv))"
  proof
    fix kv assume m: "kv \<in> set kvs"
    have "json_serializable (snd kv)" using VDict.prems m by (simp add: list_all_iff)
    moreover have "snd kv \<in> Basic_BNFs.snds kv" by (cases kv) simp
    ultimately show "no_dicts (loads_dumps (snd kv))" using VDict.IH m by blast
  qed
  then show ?case by (simp add: list_all_iff)
qed simp_all

lemma map_of_loads_dumps:
  "map_of (map (\<lambda>kv. (fst kv, loads_dumps (snd kv))) kvs) k = map_option loads_dumps (map_of kvs k)"
  by (induction kvs) auto

lemma getattr_loads_dumps:
  "k \<notin> set data_descriptors \<Longrightarrow>
   getattr_response (loads_dumps (VDict kvs)) k =
     (case map_of kvs k of None \<Rightarrow> ClassLookup k | Some v \<Rightarrow> InstanceAttr (loads_dumps v))"
  by (simp add: map_of_loads_dumps split: option.splits)

lemma getattr_descriptor:
  "k \<in> set data_descriptors \<Longrightarrow> getattr_response (VResponse kvs) k = DataDescriptor k"
  by simp

text \<open>
  C8, as claimed: with the response format \<^verbatim>\<open>obj\<close>, every mapping of a JSON result
  becomes a node on which every key is an attribute with the same value. That fails
  for a key that is a data descriptor of the class: for the result
  \<^verbatim>\<open>{"__class__": "premium"}\<close> the entry is in the instance dictionary, but
  \<^verbatim>\<open>getattr(obj, "__class__")\<close> is answered by the descriptor of \<^verbatim>\<open>object\<close> (the
  class of the node), not by the entry.
\<close>

theorem response_attribute_answered_by_descriptor:
  "construct_request dunder_net obj_world ''https://api.chapa.co/v1/x'' ''post'' (ArgDict [])
     ArgNone (ArgDict [])
     = (Inr (VResponse [(''__class__'', VStr ''premium'')]), obj_world \<lparr> sent := [test_request] \<rparr>)
   \<and> getattr_response (VResponse [(''__class__'', VStr ''premium'')]) ''__class__''
       = DataDescriptor ''__class__''
   \<and> getattr_response (VResponse [(''__class__'', VStr ''premium'')]) ''__class__''
       \<noteq> InstanceAttr (VStr ''premium'')"
proof -
  have s: "send_request dunder_net obj_world ''https://api.chapa.co/v1/x'' ''post'' (ArgDict [])
             ArgNone (ArgDict [])
           = (Inr (VDict [(''__class__'', VStr ''premium'')]), obj_world \<lparr> sent := [test_request] \<rparr>)"
    by (simp add: send_request_def allowed_methods_def dunder_net_def Let_def obj_world_def
          new_world_def test_client_def test_request_def)
  have f: "response_format (client (obj_world \<lparr> sent := [test_request] \<rparr>)) = ''obj''"
    by (simp add: obj_world_def new_world_def test_client_def)
  have "construct_request dunder_net obj_world ''https://api.chapa.co/v1/x'' ''post'' (ArgDict [])
     ArgNone (ArgDict [])
     = (Inr (VResponse [(''__class__'', VStr ''premium'')]), obj_world \<lparr> sent := [test_request] \<rparr>)"
    using s f by (simp add: construct_request_def convert_response_def)
  then show ?thesis by (simp add: data_descriptors_def)
qed

text \<open>
  C8, amended. With the response format \<^verbatim>\<open>obj\<close>, a result of \<^verbatim>\<open>send_request\<close> that
  is not a dictionary is returned unchanged. A result that is a dictionary of JSON
  data is returned as an object graph \<^verbatim>\<open>obj\<close> that is the same data with every
  dictionary, at any depth and inside lists, turned into a \<^verbatim>\<open>Response\<close> node whose
  instance dictionary has the same keys and the adapted values: reading the nodes
  back as dictionaries gives the result itself, and no dictionary is left in
  \<^verbatim>\<open>obj\<close>. On every node, every key other than \<^verbatim>\<open>__class__\<close>, \<^verbatim>\<open>__dict__\<close> and
  \<^verbatim>\<open>__weakref__\<close> is an attribute that holds the value of the entry.
\<close>

theorem construct_request_obj_adapts:
  assumes "response_format (client w) = ''obj''"
    and "send_request net w url meth body params hdrs = (Inr res, w')"
  shows "(\<not> isinstance_dict_val res \<longrightarrow>
            construct_request net w url meth body params hdrs = (Inr res, w'))
       \<and> (isinstance_dict_val res \<and> json_serializable res \<longrightarrow>
            (\<exists>obj. construct_request net w url meth body params hdrs = (Inr obj, w')
                 \<and> vars_view obj = res \<and> no_dicts obj
                 \<and> (\<forall>kvs k. res = VDict kvs \<and> k \<notin> set data_descriptors \<longrightarrow>
                       getattr_response obj k =
                         (case map_of kvs k of
                            None \<Rightarrow> ClassLookup k
                          | Some v \<Rightarrow> InstanceAttr (loads_dumps v)))))
       \<and> (\<forall>kvs k v. k \<notin> set data_descriptors \<and> map_of kvs k = Some v \<longrightarrow>
             getattr_response (VResponse kvs) k = InstanceAttr v)"
proof -
  have fmt: "response_format (client w') = ''obj''"
    using send_request_format [of net w url meth body params hdrs] assms by simp
  have plain: "\<not> isinstance_dict_val res \<Longrightarrow>
      construct_request net w url meth body params hdrs = (Inr res, w')"
    using assms(2) by (simp add: construct_request_def)
  have adapted: "construct_request net w url meth body params hdrs = (Inr (loads_dumps res), w')"
    if "isinstance_dict_val res" "json_serializable res"
    using assms(2) fmt that by (simp add: construct_request_def convert_response_def)
  show ?thesis
  proof (intro conjI impI allI)
    assume "\<not> isinstance_dict_val res"
    then show "construct_request net w url meth body params hdrs = (Inr res, w')" by (rule plain)
  next
    assume a: "isinstance_dict_val res \<and> json_serializable res"
    have "construct_request net w url meth body params hdrs = (Inr (loads_dumps res), w')"
      using a adapted by simp
    moreover have "vars_view (loads_dumps res) = res" using a by (simp add: vars_view_loads_dumps)
    moreover have "no_dicts (loads_dumps res)" using a by (simp add: no_dicts_loads_dumps)
    moreover have "\<forall>kvs k. res = VDict kvs \<and> k \<notin> set data_descriptors \<longrightarrow>
        getattr_response (loads_dumps res) k =
          (case map_of kvs k of None \<Rightarrow> ClassLookup k | Some v \<Rightarrow> InstanceAttr (loads_dumps v))"
      using getattr_loads_dumps by blast
    ultimately show "\<exists>obj. construct_request net w url meth body params hdrs = (Inr obj, w')
                 \<and> vars_view obj = res \<and> no_dicts obj
                 \<and> (\<forall>kvs k. res = VDict kvs \<and> k \<notin> set data_descriptors \<longrightarrow>
                       getattr_response obj k =
                         (case map_of kvs k of
                            None \<Rightarrow> ClassLookup k
                          | Some v \<Rightarrow> InstanceAttr (loads_dumps v)))"
      by blast
  next
    fix kvs :: pydict and k v
    assume "k \<notin> set data_descriptors \<and> map_of kvs k = Some v"
    then show "getattr_response (VResponse kvs) k = InstanceAttr v" by simp
  qed
qed

theorem construct_request_obj_adapts_witness:
  "response_format (client obj_world) = ''obj''
   \<and> send_request test_net obj_world ''https://api.chapa.co/v1/x'' ''post'' (ArgDict []) ArgNone (ArgDict [])
       = (Inr test_body, obj_world \<lparr> sent := [test_request] \<rparr>)
   \<and> isinstance_dict_val test_body \<and> json_serializable test_body
   \<and> ''status'' \<notin> set data_descriptors
   \<and> (\<exists>obj. construct_request test_net obj_world ''https://api.chapa.co/v1/x'' ''post'' (ArgDict []) ArgNone (ArgDict [])
              = (Inr obj, obj_world \<lparr> sent := [test_request] \<rparr>)
            \<and> vars_view obj = test_body \<and> no_dicts obj
            \<and> getattr_response obj ''status'' = InstanceAttr (VStr ''success''))"
proof -
  have h1: "response_format (client obj_world) = ''obj''"
    by (simp add: obj_world_def new_world_def test_client_def)
  have h2: "send_request test_net obj_world ''https://api.chapa.co/v1/x'' ''post'' (ArgDict []) ArgNone (ArgDict [])
       = (Inr test_body, obj_world \<lparr> sent := [test_request] \<rparr>)"
    by (simp add: send_request_def allowed_methods_def test_net_def Let_def obj_world_def
          new_world_def test_client_def test_request_def test_body_def)
  have h3: "isinstance_dict_val test_body \<and> json_serializable test_body"
    by (simp add: test_body_def)
  have h4: "''status'' \<notin> set data_descriptors"
    by (simp add: data_descriptors_def)
  have "\<exists>obj. construct_request test_net obj_world ''https://api.chapa.co/v1/x'' ''post'' (ArgDict []) ArgNone (ArgDict [])
              = (Inr obj, obj_world \<lparr> sent := [test_request] \<rparr>)
            \<and> vars_view obj = test_body \<and> no_dicts obj
            \<and> (\<forall>kvs k. test_body = VDict kvs \<and> k \<notin> set data_descriptors \<longrightarrow>
                       getattr_response obj k =
                         (case map_of kvs k of
                            None \<Rightarrow> ClassLookup k
                          | Some v \<Rightarrow> InstanceAttr (loads_dumps v)))"
    using construct_request_obj_adapts [OF h1 h2] h3 by blast
  then obtain obj where o: "construct_request test_net obj_world ''https://api.chapa.co/v1/x'' ''post'' (ArgDict []) ArgNone (ArgDict [])
              = (Inr obj, obj_world \<lparr> sent := [test_request] \<rparr>)"
     "vars_view obj = test_body" "no_dicts obj"
     "\<forall>kvs k. test_body = VDict kvs \<and> k \<notin> set data_descriptors \<longrightarrow>
                       getattr_response obj k =
                         (case map_of kvs k of
                            None \<Rightarrow> ClassLookup k
                          | Some v \<Rightarrow> InstanceAttr (loads_dumps v))"
    by blast
  have "getattr_response obj ''status'' = InstanceAttr (VStr ''success'')"
    using o(4) h4 by (simp add: test_body_def)
  then show ?thesis using h1 h2 h3 h4 o by blast
qed

section \<open>The email check of initialize\<close>

lemma email_pattern_matches:
  assumes "email_pattern email"
  shows "re_match_email email"
proof -
  from assms obtain a b c r where e: "email = a @ ''@'' @ b @ ''.'' @ c @ r"
    and ne: "a \<noteq> []" "b \<noteq> []" "c \<noteq> []"
    and na: "list_all not_at a" "list_all not_at b" "list_all not_at c"
    unfolding email_pattern_def by blast
  have a_all: "\<And>x. x \<in> set a \<Longrightarrow> not_at x" using na(1) by (simp add: list_all_iff)
  have bc_all: "\<And>x. x \<in> set (b @ ''.'' @ c) \<Longrightarrow> not_at x"
    using na(2,3) by (auto simp add: list_all_iff not_at_def)
  have e': "email = a @ (CHR ''@'' # (b @ ''.'' @ c) @ r)" using e by simp
  have tw: "takeWhile not_at email = a"
    unfolding e' using a_all by (simp add: takeWhile_append2 not_at_def)
  have dw: "dropWhile not_at email = CHR ''@'' # (b @ ''.'' @ c) @ r"
    unfolding e' using a_all by (simp add: dropWhile_append2 not_at_def)
  have dom: "takeWhile not_at (drop 1 (dropWhile not_at email)) = (b @ ''.'' @ c) @ takeWhile not_at r"
    unfolding dw using bc_all by (simp only: drop_Suc_Cons drop_0 One_nat_def takeWhile_append2)
  obtain b0 bs where b: "b = b0 # bs" using ne(2) by (cases b) auto
  have cne: "c @ takeWhile not_at r \<noteq> []" using ne(3) by simp
  have "butlast (drop 1 ((b @ ''.'' @ c) @ takeWhile not_at r))
        = bs @ CHR ''.'' # butlast (c @ takeWhile not_at r)"
    using b cne by (simp add: butlast_append)
  then have "CHR ''.'' \<in> set (butlast (drop 1 (takeWhile not_at (drop 1 (dropWhile not_at email)))))"
    unfolding dom by simp
  then show ?thesis
    using tw dw ne(1) by (simp add: re_match_email_def Let_def)
qed

lemma matches_email_pattern:
  assumes "re_match_email email"
  shows "email_pattern email"
proof -
  define a where "a = takeWhile not_at email"
  define rest where "rest = dropWhile not_at email"
  define dom where "dom = takeWhile not_at (drop 1 rest)"
  define r where "r = dropWhile not_at (drop 1 rest)"
  define t where "t = drop 1 dom"
  from assms have ane: "a \<noteq> []" and rne: "rest \<noteq> []"
    and dot: "CHR ''.'' \<in> set (butlast t)"
    by (simp_all add: re_match_email_def Let_def a_def rest_def dom_def t_def)
  have "\<not> not_at (hd rest)" using rne unfolding rest_def by (rule hd_dropWhile)
  then have "hd rest = CHR ''@''" by (simp add: not_at_def)
  then have rest: "rest = CHR ''@'' # drop 1 rest" using rne by (cases rest) auto
  have split1: "email = a @ rest" by (simp add: a_def rest_def)
  have split2: "drop 1 rest = dom @ r" by (simp add: dom_def r_def)
  from dot obtain p q where pq: "butlast t = p @ CHR ''.'' # q"
    by (auto dest: split_list)
  then have tne: "t \<noteq> []" by auto
  then have dne: "dom \<noteq> []" by (auto simp add: t_def)
  have t: "t = p @ CHR ''.'' # q @ [last t]"
    using append_butlast_last_id [OF tne] pq by simp
  obtain d0 where d0: "dom = d0 # t" using dne by (cases dom) (auto simp add: t_def)
  define b where "b = d0 # p"
  define c where "c = q @ [last t]"
  have dom: "dom = b @ CHR ''.'' # c"
    using t d0 by (simp add: b_def c_def)
  have bne: "b \<noteq> []" and cne: "c \<noteq> []" by (simp_all add: b_def c_def)
  have dall: "\<And>x. x \<in> set dom \<Longrightarrow> not_at x"
    by (auto simp add: dom_def dest: set_takeWhileD)
  have ball: "list_all not_at b"
    unfolding list_all_iff using dall dom by simp
  have call: "list_all not_at c"
    unfolding list_all_iff using dall dom by simp
  have aall: "list_all not_at a"
    by (auto simp add: a_def list_all_iff dest: set_takeWhileD)
  have "email = a @ CHR ''@'' # dom @ r" using split1 rest split2 by metis
  then have "email = a @ ''@'' @ b @ ''.'' @ c @ r"
    using dom by simp
  then show ?thesis
    unfolding email_pattern_def using ane bne cne ball call aall by blast
qed

lemma re_match_email_iff: "re_match_email email = email_pattern email"
  using email_pattern_matches matches_email_pattern by blast

lemma initialize_passes_checks:
  "validate_amount amount = Inr () \<Longrightarrow> re_match_email email \<Longrightarrow>
   initialize net w email amount first_name last_name tx_ref currency callback_url customization hdrs
   = construct_request net w
       (base_url (client w) @ ''/'' @ api_version (client w) @ ''/transaction/initialize'')
       ''post''
       (ArgDict (initialize_data email amount first_name last_name tx_ref currency callback_url customization))
       ArgNone hdrs"
  by (simp add: initialize_def)

lemma construct_request_sent:
  "sent (snd (construct_request net w url meth body params hdrs)) =
   sent (snd (send_request net w url meth body params hdrs))"
  by (simp add: construct_request_def split: prod.splits sum.splits)

lemma not_an_email: "\<not> re_match_email ''not-an-email''"
  by (simp add: re_match_email_def not_at_def)

text \<open>
  C4, as claimed: for every \<^verbatim>\<open>email\<close> without a match of the pattern,
  \<^verbatim>\<open>initialize\<close> raises \<^verbatim>\<open>invalid email\<close>. That fails where the amount is
  refused too: the amount is checked first (line 126, the email on line 137), so with
  the email \<^verbatim>\<open>not-an-email\<close> and the amount -1 the call raises
  \<^verbatim>\<open>invalid amount\<close>.
\<close>

theorem initialize_amount_checked_before_email:
  "\<not> email_pattern ''not-an-email''
   \<and> initialize test_net (new_world test_client) ''not-an-email'' (VInt (- 1)) ''A'' ''B'' ''tx1''
        ''ETB'' None None (ArgDict [])
       = (Inl (ValueError ''invalid amount''), new_world test_client)
   \<and> ValueError ''invalid amount'' \<noteq> ValueError ''invalid email''"
proof -
  have "\<not> email_pattern ''not-an-email''"
    using not_an_email by (simp add: re_match_email_iff)
  moreover have "initialize test_net (new_world test_client) ''not-an-email'' (VInt (- 1)) ''A'' ''B''
        ''tx1'' ''ETB'' None None (ArgDict [])
       = (Inl (ValueError ''invalid amount''), new_world test_client)"
    by (simp add: initialize_def invalid_amount_def)
  ultimately show ?thesis by simp
qed

text \<open>
  C4, amended. For every \<^verbatim>\<open>email\<close> without a match of the pattern at its start
  (some characters other than \<^verbatim>\<open>@\<close>, an \<^verbatim>\<open>@\<close>, then a domain with a full stop
  inside it), \<^verbatim>\<open>initialize\<close> raises and returns the state as it was, so before any
  request; what it raises is the \<^verbatim>\<open>ValueError\<close> \<^verbatim>\<open>invalid email\<close> whenever the
  amount passes its check, which comes first. The email \<^verbatim>\<open>a@b.com\<close> has a match,
  and with it and an amount that passes \<^verbatim>\<open>initialize\<close> goes on to
  \<^verbatim>\<open>_construct_request\<close> with the method \<^verbatim>\<open>post\<close>, the URL of the endpoint and
  the body it has built; whenever the headers given merge into those of the client
  (a dictionary does), exactly one request, that POST, is issued.
\<close>

theorem initialize_email_check:
  "(\<not> email_pattern email \<longrightarrow>
      (\<exists>e. initialize net w email amount first_name last_name tx_ref currency callback_url
              customization hdrs = (Inl e, w))
      \<and> (validate_amount amount = Inr () \<longrightarrow>
            initialize net w email amount first_name last_name tx_ref currency callback_url
              customization hdrs = (Inl (ValueError ''invalid email''), w)))
   \<and> email_pattern ''a@b.com''
   \<and> (validate_amount amount = Inr () \<longrightarrow>
        initialize net w ''a@b.com'' amount first_name last_name tx_ref currency callback_url
          customization hdrs
        = construct_request net w
            (base_url (client w) @ ''/'' @ api_version (client w) @ ''/transaction/initialize'')
            ''post''
            (ArgDict (initialize_data ''a@b.com'' amount first_name last_name tx_ref currency
                        callback_url customization))
            ArgNone hdrs
        \<and> (\<forall>h. dict_update (headers (client w)) hdrs = Inr h \<longrightarrow>
              sent (snd (initialize net w ''a@b.com'' amount first_name last_name tx_ref currency
                           callback_url customization hdrs))
              = sent w @ [\<lparr> req_method = ''post'',
                             req_url = base_url (client w) @ ''/'' @ api_version (client w)
                                         @ ''/transaction/initialize'',
                             req_data = ArgDict (initialize_data ''a@b.com'' amount first_name
                                          last_name tx_ref currency callback_url customization),
                             req_headers = h \<rparr>]))"
proof (intro conjI impI allI)
  assume n: "\<not> email_pattern email"
  then have nm: "\<not> re_match_email email" by (simp add: re_match_email_iff)
  show "\<exists>e. initialize net w email amount first_name last_name tx_ref currency callback_url
              customization hdrs = (Inl e, w)"
    using nm by (cases "validate_amount amount") (simp_all add: initialize_def)
  assume "validate_amount amount = Inr ()"
  then show "initialize net w email amount first_name last_name tx_ref currency callback_url
              customization hdrs = (Inl (ValueError ''invalid email''), w)"
    using nm by (simp add: initialize_def)
next
  show "email_pattern ''a@b.com''" using email_ab by (simp add: re_match_email_iff)
next
  assume v: "validate_amount amount = Inr ()"
  show "initialize net w ''a@b.com'' amount first_name last_name tx_ref currency callback_url
          customization hdrs
        = construct_request net w
            (base_url (client w) @ ''/'' @ api_version (client w) @ ''/transaction/initialize'')
            ''post''
            (ArgDict (initialize_data ''a@b.com'' amount first_name last_name tx_ref currency
                        callback_url customization))
            ArgNone hdrs"
    using v email_ab by (rule initialize_passes_checks)
next
  fix h
  assume v: "validate_amount amount = Inr ()"
    and u: "dict_update (headers (client w)) hdrs = Inr h"
  have "sent (snd (initialize net w ''a@b.com'' amount first_name last_name tx_ref currency
                           callback_url customization hdrs))
        = sent (snd (send_request net w
            (base_url (client w) @ ''/'' @ api_version (client w) @ ''/transaction/initialize'')
            ''post''
            (ArgDict (initialize_data ''a@b.com'' amount first_name last_name tx_ref currency
                        callback_url customization))
            ArgNone hdrs))"
    using initialize_passes_checks [OF v email_ab] by (simp add: construct_request_sent)
  also have "\<dots> = sent w @ [\<lparr> req_method = ''post'',
                             req_url = base_url (client w) @ ''/'' @ api_version (client w)
                                         @ ''/transaction/initialize'',
                             req_data = ArgDict (initialize_data ''a@b.com'' amount first_name
                                          last_name tx_ref currency callback_url customization),
                             req_headers = h \<rparr>]"
    using send_request_sends [OF post_allowed _ u, of ArgNone] by simp
  finally show "sent (snd (initialize net w ''a@b.com'' amount first_name last_name tx_ref currency
                           callback_url customization hdrs))
              = sent w @ [\<lparr> req_method = ''post'',
                             req_url = base_url (client w) @ ''/'' @ api_version (client w)
                                         @ ''/transaction/initialize'',
                             req_data = ArgDict (initialize_data ''a@b.com'' amount first_name
                                          last_name tx_ref currency callback_url customization),
                             req_headers = h \<rparr>]" .
qed

theorem initialize_email_check_witness:
  "\<not> email_pattern ''not-an-email'' \<and> validate_amount (VInt 100) = Inr ()
   \<and> initialize test_net (new_world test_client) ''not-an-email'' (VInt 100) ''A'' ''B'' ''tx1''
        ''ETB'' None None (ArgDict [])
       = (Inl (ValueError ''invalid email''), new_world test_client)
   \<and> dict_update (headers (client (new_world test_client))) (ArgDict [])
       = Inr [(''Authorization'', VStr ''Bearer sk_test_x'')]
   \<and> sent (snd (initialize test_net (new_world test_client) ''a@b.com'' (VInt 100) ''A'' ''B'' ''tx1''
        ''ETB'' None None (ArgDict [])))
       = [\<lparr> req_method = ''post'', req_url = ''https://api.chapa.co/v1/transaction/initialize'',
            req_data = ArgDict [(''first_name'', VStr ''A''), (''last_name'', VStr ''B''),
                                (''tx_ref'', VStr ''tx1''), (''currency'', VStr ''ETB''),
                                (''amount'', VInt 100), (''email'', VStr ''a@b.com'')],
            req_headers = [(''Authorization'', VStr ''Bearer sk_test_x'')] \<rparr>]"
proof -
  have n: "\<not> email_pattern ''not-an-email''"
    using not_an_email by (simp add: re_match_email_iff)
  have u: "dict_update (headers (client (new_world test_client))) (ArgDict [])
       = Inr [(''Authorization'', VStr ''Bearer sk_test_x'')]"
    by (simp add: new_world_def test_client_def)
  have d: "initialize_data ''a@b.com'' (VInt 100) ''A'' ''B'' ''tx1'' ''ETB'' None None
       = [(''first_name'', VStr ''A''), (''last_name'', VStr ''B''),
          (''tx_ref'', VStr ''tx1''), (''currency'', VStr ''ETB''),
          (''amount'', VInt 100), (''email'', VStr ''a@b.com'')]"
    by (simp add: initialize_data_def add_callback_url_def add_customization_def)
  have w: "base_url (client (new_world test_client)) @ ''/'' @ api_version (client (new_world test_client))
             @ ''/transaction/initialize'' = ''https://api.chapa.co/v1/transaction/initialize''"
       "sent (new_world test_client) = []"
    by (simp_all add: new_world_def test_client_def)
  note t = initialize_email_check [of "''not-an-email''" test_net "new_world test_client" "VInt 100" "''A''" "''B''"
                  "''tx1''" "''ETB''" None None "ArgDict []"]
  have e1: "initialize test_net (new_world test_client) ''not-an-email'' (VInt 100) ''A'' ''B'' ''tx1''
        ''ETB'' None None (ArgDict [])
       = (Inl (ValueError ''invalid email''), new_world test_client)"
    using t n amount_100 by blast
  have e2: "sent (snd (initialize test_net (new_world test_client) ''a@b.com'' (VInt 100) ''A'' ''B''
                ''tx1'' ''ETB'' None None (ArgDict [])))
       = sent (new_world test_client)
         @ [\<lparr> req_method = ''post'',
              req_url = base_url (client (new_world test_client)) @ ''/''
                          @ api_version (client (new_world test_client)) @ ''/transaction/initialize'',
              req_data = ArgDict (initialize_data ''a@b.com'' (VInt 100) ''A'' ''B'' ''tx1'' ''ETB''
                                    None None),
              req_headers = [(''Authorization'', VStr ''Bearer sk_test_x'')] \<rparr>]"
    using t amount_100 u by blast
  have e3: "sent (snd (initialize test_net (new_world test_client) ''a@b.com'' (VInt 100) ''A'' ''B''
                ''tx1'' ''ETB'' None None (ArgDict [])))
       = [\<lparr> req_method = ''post'', req_url = ''https://api.chapa.co/v1/transaction/initialize'',
            req_data = ArgDict [(''first_name'', VStr ''A''), (''last_name'', VStr ''B''),
                                (''tx_ref'', VStr ''tx1''), (''currency'', VStr ''ETB''),
                                (''amount'', VInt 100), (''email'', VStr ''a@b.com'')],
            req_headers = [(''Authorization'', VStr ''Bearer sk_test_x'')] \<rparr>]"
    using e2 unfolding d w by simp
  show ?thesis
    using n amount_100 e1 u e3 by blast
qed

section \<open>The amount check of initialize\<close>


































end
